theory Spec2Isabelle
  imports Complex_Main "HOL-Library.Word" "HOL-Library.AList"
    "HOL-Library.Char_ord" "HOL-Library.List_Lexorder"
begin

unbundle bit_operations_syntax

section \<open>Data model\<close>

text \<open>
  The memory engine of the agent: \<^verbatim>\<open>src/agent/memory/embeddings.py\<close> (embedding calls,
  cosine similarity, the vector codec) and \<^verbatim>\<open>src/agent/memory/store.py\<close> (the SQLite-backed
  \<^verbatim>\<open>MemoryStore\<close>).

  Conventions of the embedding.
  \<^item> Python text is a \<open>string\<close>, one \<open>char\<close> per code point (code points below 256).
  \<^item> A byte is an \<open>8 word\<close>; a \<^verbatim>\<open>bytes\<close> value is a list of them.
  \<^item> The embedding model produces single-precision numbers, and \<^verbatim>\<open>.tolist()\<close> hands them
    over as Python floats holding exactly those values. A component of a vector is
    therefore modelled by its IEEE-754 single-precision bit pattern, a \<open>32 word\<close>;
    \<open>f32_val\<close> reads the number it denotes. On such numbers \<^verbatim>\<open>struct.pack("f", x)\<close>
    rounds nothing.
  \<^item> Arithmetic on Python floats is modelled by arithmetic on \<open>real\<close>: rounding of
    double-precision operations, infinities and NaN are outside the model.
  \<^item> An exception is a value of type \<open>error\<close>; a function that may raise returns
    \<open>error + 'a\<close>, with \<open>Inl\<close> for the exception.
\<close>

type_synonym byte = "8 word"
type_synonym f32 = "32 word"

text \<open>
  \<open>ImportError\<close> is what \<^verbatim>\<open>_get_model\<close> raises when the embedding model cannot be
  loaded, \<open>StructError\<close> is \<^verbatim>\<open>struct.error\<close>, \<open>OperationalError\<close> is a failure of the
  SQLite full-text backend, \<open>OverflowError\<close> is raised by \<^verbatim>\<open>sqlite3\<close> for an integer
  parameter outside 64 bits, \<open>RuntimeError\<close> is raised by \<^verbatim>\<open>save\<close> when no row id comes
  back. \<open>InvalidContent\<close> and \<open>InvalidQuery\<close> are the names the specification uses for
  rejected input; no statement of the source raises them.
\<close>

datatype error =
    ImportError
  | StructError
  | OperationalError
  | OverflowError
  | RuntimeError
  | InvalidContent
  | InvalidQuery

section \<open>embeddings.py\<close>

subsection \<open>The embedding model\<close>

text \<open>
  \<^verbatim>\<open>
  def _get_model():
      global _embed_model
      if _embed_model is not None:
          return _embed_model
      try:
          from fastembed import TextEmbedding
          _embed_model = TextEmbedding(model_name="BAAI/bge-small-en-v1.5")
          return _embed_model
      except ImportError:
          raise ImportError("FastEmbed is not installed! ...")

  def embed_text(text):
      model = _get_model()
      embeddings = list(model.embed([text]))
      return embeddings[0].tolist()
  \<close>
  The environment either lacks the \<^verbatim>\<open>fastembed\<close> package, and then every call of
  \<^verbatim>\<open>_get_model\<close> raises (nothing is cached, the import is tried and fails again), or it
  has it, and then every call returns the one model: the cache in \<^verbatim>\<open>_embed_model\<close> saves
  loading time only. The model itself is a function from text to vectors, given from
  outside.
\<close>

datatype fastembed = NotInstalled | TextEmbedding "string \<Rightarrow> f32 list"

definition get_model :: "fastembed \<Rightarrow> error + (string \<Rightarrow> f32 list)" where
  "get_model env = (case env of NotInstalled \<Rightarrow> Inl ImportError | TextEmbedding m \<Rightarrow> Inr m)"

definition embed_text :: "fastembed \<Rightarrow> string \<Rightarrow> error + f32 list" where
  "embed_text env text = (case get_model env of Inl e \<Rightarrow> Inl e | Inr model \<Rightarrow> Inr (model text))"

subsection \<open>Cosine similarity\<close>

text \<open>
  \<^verbatim>\<open>
  def cosine_similarity(a, b):
      dot = sum(x * y for x, y in zip(a, b))
      norm_a = sum(x * x for x in a) ** .05
      norm_b = sum(x * x for x in b) ** .05
      if norm_a == 0 or norm_b == 0:
          return 0.0
      return dot / (norm_a * norm_b)
  \<close>
  The exponent is the source's \<^verbatim>\<open>.05\<close>. \<open>powr\<close> agrees with Python's \<^verbatim>\<open>**\<close> on a
  non-negative base: \<open>0 powr y = 0\<close>.
\<close>

definition cosine_similarity :: "real list \<Rightarrow> real list \<Rightarrow> real" where
  "cosine_similarity a b =
     (let dot = sum_list (map (\<lambda>(x, y). x * y) (zip a b));
          norm_a = sum_list (map (\<lambda>x. x * x) a) powr (5 / 100);
          norm_b = sum_list (map (\<lambda>x. x * x) b) powr (5 / 100)
      in if norm_a = 0 \<or> norm_b = 0 then 0 else dot / (norm_a * norm_b))"

text \<open>
  The reference definition, following the words of the specification and of the
  docstring (\<^verbatim>\<open>cos(theta) = (A . B) / (|A| x |B|)\<close>): the dot product divided by the
  product of the Euclidean norms, each norm the sum of squares to the power one half.
\<close>

definition euclidean_norm :: "real list \<Rightarrow> real" where
  "euclidean_norm a = sum_list (map (\<lambda>x. x * x) a) powr (1 / 2)"

definition cosine_reference :: "real list \<Rightarrow> real list \<Rightarrow> real" where
  "cosine_reference a b =
     sum_list (map (\<lambda>(x, y). x * y) (zip a b)) / (euclidean_norm a * euclidean_norm b)"

subsection \<open>The vector codec\<close>

text \<open>
  \<^verbatim>\<open>struct.pack("f", x)\<close> writes the four bytes of the single-precision pattern of \<open>x\<close>
  in native order, which is little-endian on the machines the agent runs on (the
  specification says "little/native-endian"); \<^verbatim>\<open>struct.unpack("f", ...)\<close> reads them back.
\<close>

definition pack_f :: "f32 \<Rightarrow> byte list" where
  "pack_f w = [ucast w, ucast (drop_bit 8 w), ucast (drop_bit 16 w), ucast (drop_bit 24 w)]"

definition unpack_f :: "byte \<Rightarrow> byte \<Rightarrow> byte \<Rightarrow> byte \<Rightarrow> f32" where
  "unpack_f b0 b1 b2 b3 =
     ucast b0 OR push_bit 8 (ucast b1) OR push_bit 16 (ucast b2) OR push_bit 24 (ucast b3)"

text \<open>
  \<^verbatim>\<open>
  def serialize_vector(vec):
      return struct.pack(f"{len(vec)}f", *vec)
  \<close>
\<close>

definition serialize_vector :: "f32 list \<Rightarrow> byte list" where
  "serialize_vector vec = concat (map pack_f vec)"

text \<open>
  \<^verbatim>\<open>
  def deserialize_vector(data):
      n = len(data) // 4
      return list(struct.unpack(f"{n}f", data))
  \<close>
  \<^verbatim>\<open>struct.unpack\<close> raises \<^verbatim>\<open>struct.error\<close> unless the buffer has exactly the
  \<open>4 * n\<close> bytes its format asks for.
\<close>

fun unpack_floats :: "byte list \<Rightarrow> f32 list" where
  "unpack_floats (b0 # b1 # b2 # b3 # rest) = unpack_f b0 b1 b2 b3 # unpack_floats rest"
| "unpack_floats _ = []"

definition deserialize_vector :: "byte list \<Rightarrow> error + f32 list" where
  "deserialize_vector data =
     (let n = length data div 4
      in if length data = 4 * n then Inr (unpack_floats data) else Inl StructError)"

text \<open>
  The number a single-precision pattern denotes: sign bit, eight exponent bits, 23
  fraction bits. With \<open>e\<close> the biased exponent and \<open>m\<close> the fraction, a normal number is
  \<open>(1 + m / 2^23) * 2^(e - 127)\<close> and a subnormal one (\<open>e = 0\<close>) is
  \<open>m / 2^23 * 2^(-126)\<close>; both are written over the common denominator \<open>2^150\<close>.
  Patterns with \<open>e = 255\<close> (infinities, NaN) are outside the model.
\<close>

definition f32_val :: "f32 \<Rightarrow> real" where
  "f32_val w =
     (let n = unat w;
          s = n div 2 ^ 31;
          e = (n div 2 ^ 23) mod 256;
          m = n mod 2 ^ 23;
          mag = real (if e = 0 then 2 * m else (2 ^ 23 + m) * 2 ^ e) / 2 ^ 150
      in if s = 1 then - mag else mag)"

section \<open>store.py\<close>

subsection \<open>The database\<close>

text \<open>
  The two tables that \<^verbatim>\<open>_init_db\<close> creates: \<^verbatim>\<open>memories\<close> (the column \<^verbatim>\<open>embedding BLOB\<close>
  may be NULL, every other column is NOT NULL) and the FTS5 table \<^verbatim>\<open>memories_fts\<close>
  (\<^verbatim>\<open>rowid, content, category\<close>). \<open>seq\<close> is the AUTOINCREMENT counter that SQLite keeps
  in \<^verbatim>\<open>sqlite_sequence\<close>. Timestamps are the ISO strings the source stores.
\<close>

record memory_row =
  row_id :: int
  content :: string
  category :: string
  embedding :: "byte list option"
  created_at :: string
  updated_at :: string

record fts_row =
  fts_rowid :: int
  fts_content :: string
  fts_category :: string

record db =
  memories :: "memory_row list"
  memories_fts :: "fts_row list"
  seq :: int

definition init_db :: db where
  "init_db = \<lparr>memories = [], memories_fts = [], seq = 0\<rparr>"

text \<open>
  \<^verbatim>\<open>INSERT INTO memories (content, category, embedding, created_at, updated_at) VALUES ...\<close>
  with \<^verbatim>\<open>id INTEGER PRIMARY KEY AUTOINCREMENT\<close>: the new id is one more than the largest
  id the table holds or has ever held. The trigger \<^verbatim>\<open>memories_ai\<close> (AFTER INSERT) then
  inserts \<^verbatim>\<open>(new.id, new.content, new.category)\<close> into \<^verbatim>\<open>memories_fts\<close>. The result is
  \<^verbatim>\<open>cursor.lastrowid\<close> and the new database.
\<close>

definition next_rowid :: "db \<Rightarrow> int" where
  "next_rowid s = fold max (map row_id (memories s)) (seq s) + 1"

definition trigger_memories_ai :: "memory_row \<Rightarrow> db \<Rightarrow> db" where
  "trigger_memories_ai new s =
     s\<lparr>memories_fts := memories_fts s @
        [\<lparr>fts_rowid = row_id new, fts_content = content new, fts_category = category new\<rparr>]\<rparr>"

definition insert_memory ::
  "db \<Rightarrow> string \<Rightarrow> string \<Rightarrow> byte list option \<Rightarrow> string \<Rightarrow> string \<Rightarrow> int option \<times> db" where
  "insert_memory s c cat emb created updated =
     (let new = \<lparr>row_id = next_rowid s, content = c, category = cat, embedding = emb,
                   created_at = created, updated_at = updated\<rparr>;
          s1 = s\<lparr>memories := memories s @ [new], seq := row_id new\<rparr>
      in (Some (row_id new), trigger_memories_ai new s1))"

text \<open>
  \<^verbatim>\<open>DELETE FROM memories WHERE id = ?\<close>; the trigger \<^verbatim>\<open>memories_ad\<close> (AFTER DELETE) runs
  \<^verbatim>\<open>DELETE FROM memories_fts WHERE rowid = old.id\<close> once for each deleted row. The result
  is the number of rows changed (the rows deleted from \<^verbatim>\<open>memories\<close> and those the
  trigger deleted) and the new database.
\<close>

definition trigger_memories_ad :: "memory_row \<Rightarrow> db \<Rightarrow> db" where
  "trigger_memories_ad old s =
     s\<lparr>memories_fts := filter (\<lambda>f. fts_rowid f \<noteq> row_id old) (memories_fts s)\<rparr>"

definition delete_memory :: "db \<Rightarrow> int \<Rightarrow> nat \<times> db" where
  "delete_memory s memory_id =
     (let deleted = filter (\<lambda>r. row_id r = memory_id) (memories s);
          s1 = s\<lparr>memories := filter (\<lambda>r. row_id r \<noteq> memory_id) (memories s)\<rparr>;
          s2 = fold trigger_memories_ad deleted s1
      in (length deleted + (length (memories_fts s1) - length (memories_fts s2)), s2))"

text \<open>\<^verbatim>\<open>LIMIT ?\<close>: a negative bound means no bound in SQLite.\<close>

definition sql_limit :: "int \<Rightarrow> 'a list \<Rightarrow> 'a list" where
  "sql_limit n xs = (if n < 0 then xs else take (nat n) xs)"

text \<open>The slice \<^verbatim>\<open>xs[:limit]\<close>: a negative bound counts from the end.\<close>

definition slice_to :: "int \<Rightarrow> 'a list \<Rightarrow> 'a list" where
  "slice_to limit xs =
     (if 0 \<le> limit then take (nat limit) xs else take (length xs - nat (- limit)) xs)"

subsection \<open>save, delete, count\<close>

text \<open>
  \<^verbatim>\<open>
  def save(self, content, category="fact"):
      now = datetime.datetime.now().isoformat()
      embedding = embed_text(content)
      embedding_blob = serialize_vector(embedding)
      conn = self._connect()
      cursor = conn.execute("INSERT INTO memories ...", (content, category, embedding_blob, now, now))
      memory_id = cursor.lastrowid
      conn.commit()
      conn.close()
      if memory_id is None:
          raise RuntimeError("Failed to save memory - no ID returned")
      return memory_id
  \<close>
  The clock reading \<open>now\<close> is an argument.
\<close>

definition save :: "fastembed \<Rightarrow> string \<Rightarrow> db \<Rightarrow> string \<Rightarrow> string \<Rightarrow> (error + int) \<times> db" where
  "save env now s c cat =
     (case embed_text env c of
        Inl e \<Rightarrow> (Inl e, s)
      | Inr emb \<Rightarrow>
          (let embedding_blob = serialize_vector emb;
               (memory_id, s') = insert_memory s c cat (Some embedding_blob) now now
           in case memory_id of
                None \<Rightarrow> (Inl RuntimeError, s')
              | Some i \<Rightarrow> (Inr i, s')))"

text \<open>
  \<^verbatim>\<open>
  def delete(self, memory_id):
      conn = self._connect()
      conn.execute("DELETE FROM memories WHERE id = ?", (memory_id,))
      conn.commit()
      affected = conn.total_changes
      conn.close()
      return affected > 0
  \<close>
\<close>

definition delete :: "db \<Rightarrow> int \<Rightarrow> bool \<times> db" where
  "delete s memory_id = (let (affected, s') = delete_memory s memory_id in (affected > 0, s'))"

definition count :: "db \<Rightarrow> nat" where
  "count s = length (memories s)"

subsection \<open>search\<close>

text \<open>
  The hybrid weights, module constants of the source.
\<close>

definition VECTOR_WEIGHT :: real where
  "VECTOR_WEIGHT = 7 / 10"

definition KEYWORD_WEIGHT :: real where
  "KEYWORD_WEIGHT = 3 / 10"

text \<open>
  Step 3 of \<^verbatim>\<open>search\<close>:
  \<^verbatim>\<open>
  vector_scores = {}
  for row in rows:
      mem_id, content, category, emb_blob, created_at = row
      if emb_blob:
          mem_embedding = deserialize_vector(emb_blob)
          similarity = cosine_similarity(query_embedding, mem_embedding)
          vector_scores[mem_id] = {"content": content, "category": category,
                                   "created_at": created_at,
                                   "vector_score": max(0.0, similarity)}
  \<close>
  \<^verbatim>\<open>if emb_blob\<close> is false for NULL and for the empty buffer. The dictionary is an
  association list in insertion order; \<open>AList.update\<close> overwrites a key in place and
  appends a new one, as a Python dictionary does. An exception of \<^verbatim>\<open>deserialize_vector\<close>
  leaves the loop and the function.
\<close>

record vector_entry =
  v_content :: string
  v_category :: string
  v_created_at :: string
  vector_score :: real

fun vector_scores ::
  "f32 list \<Rightarrow> memory_row list \<Rightarrow> (int \<times> vector_entry) list \<Rightarrow> error + (int \<times> vector_entry) list" where
  "vector_scores query_embedding [] acc = Inr acc"
| "vector_scores query_embedding (row # rows) acc =
     (case embedding row of
        None \<Rightarrow> vector_scores query_embedding rows acc
      | Some emb_blob \<Rightarrow>
          if emb_blob = [] then vector_scores query_embedding rows acc
          else
            (case deserialize_vector emb_blob of
               Inl e \<Rightarrow> Inl e
             | Inr mem_embedding \<Rightarrow>
                 (let similarity =
                        cosine_similarity (map f32_val query_embedding) (map f32_val mem_embedding)
                  in vector_scores query_embedding rows
                       (AList.update (row_id row)
                          \<lparr>v_content = content row, v_category = category row,
                           v_created_at = created_at row, vector_score = max 0 similarity\<rparr>
                          acc))))"

text \<open>
  The character classes of \<^verbatim>\<open>re.sub(r'[^\w\s]', '', query)\<close> and of \<^verbatim>\<open>str.strip()\<close>,
  on the code points below 256: \<^verbatim>\<open>\w\<close> is letters, digits and the underscore,
  \<^verbatim>\<open>\s\<close> is white space.
\<close>

definition is_word_char :: "char \<Rightarrow> bool" where
  "is_word_char c =
     (let n = (of_char c :: nat)
      in (48 \<le> n \<and> n \<le> 57) \<or> (65 \<le> n \<and> n \<le> 90) \<or> n = 95 \<or> (97 \<le> n \<and> n \<le> 122)
         \<or> n = 170 \<or> n = 178 \<or> n = 179 \<or> n = 181 \<or> n = 185 \<or> n = 186
         \<or> (188 \<le> n \<and> n \<le> 190) \<or> (192 \<le> n \<and> n \<le> 214) \<or> (216 \<le> n \<and> n \<le> 246)
         \<or> 248 \<le> n)"

definition is_space :: "char \<Rightarrow> bool" where
  "is_space c =
     (let n = (of_char c :: nat)
      in (9 \<le> n \<and> n \<le> 13) \<or> (28 \<le> n \<and> n \<le> 32) \<or> n = 133 \<or> n = 160)"

definition sanitize :: "string \<Rightarrow> string" where
  "sanitize query = filter (\<lambda>c. is_word_char c \<or> is_space c) query"

definition strip :: "string \<Rightarrow> string" where
  "strip s = rev (dropWhile is_space (rev (dropWhile is_space s)))"

text \<open>
  The full-text engine is SQLite's FTS5, not code of the repository: it is an argument.
  Given the rows of \<^verbatim>\<open>memories_fts\<close> and a MATCH expression, it either fails (a
  malformed expression, a backend fault) or yields the matching row ids, each with its
  \<^verbatim>\<open>rank\<close>, lower being better. \<^verbatim>\<open>ORDER BY rank LIMIT ?\<close> is applied to what it yields;
  rows of equal rank stay in the order the engine gave them.

  The bound \<^verbatim>\<open>limit * 3\<close> is a Python integer of any size, and \<^verbatim>\<open>sqlite3\<close> binds a
  parameter as a signed 64-bit INTEGER: outside that range \<^verbatim>\<open>conn.execute\<close> raises
  \<^verbatim>\<open>OverflowError\<close> before the statement runs.
\<close>

type_synonym fts5 = "fts_row list \<Rightarrow> string \<Rightarrow> error + (int \<times> real) list"

definition sqlite_integer :: "int \<Rightarrow> bool" where
  "sqlite_integer n = (- (2 ^ 63) \<le> n \<and> n < 2 ^ 63)"

definition fts_query :: "fts5 \<Rightarrow> db \<Rightarrow> string \<Rightarrow> int \<Rightarrow> error + (int \<times> real) list" where
  "fts_query engine s safe_query n =
     (if sqlite_integer n
      then (case engine (memories_fts s) safe_query of
              Inl e \<Rightarrow> Inl e
            | Inr matches \<Rightarrow> Inr (sql_limit n (sort_key snd matches)))
      else Inl OverflowError)"

text \<open>
  Step 4 of \<^verbatim>\<open>search\<close>:
  \<^verbatim>\<open>
  keyword_scores = {}
  try:
      safe_query = re.sub(r'[^\w\s]', '', query)
      if safe_query.strip():
          fts_rows = conn.execute("""SELECT rowid, rank FROM memories_fts
              WHERE memories_fts MATCH ? ORDER BY rank LIMIT ?""",
              (safe_query, limit * 3)).fetchall()
          if fts_rows:
              min_rank = min(r[1] for r in fts_rows)
              max_rank = max(r[1] for r in fts_rows)
              rank_range = max_rank - min_rank if max_rank != min_rank else 1.0
              for rowid, rank in fts_rows:
                  normalized = 1.0 - ((rank - min_rank) / rank_range) if rank_range else 1.0
                  keyword_scores[rowid] = normalized
  except Exception:
      pass
  \<close>
  Only \<^verbatim>\<open>conn.execute\<close> can raise inside the \<^verbatim>\<open>try\<close> (the engine's failure or the
  \<^verbatim>\<open>OverflowError\<close> of the bound), before any score is stored, so the handler leaves the
  dictionary empty. The dictionary is a map: only
  \<^verbatim>\<open>keyword_scores.get\<close> reads it.
\<close>

definition normalize_ranks :: "(int \<times> real) list \<Rightarrow> (int \<rightharpoonup> real)" where
  "normalize_ranks fts_rows =
     (case fts_rows of
        [] \<Rightarrow> Map.empty
      | r # rs \<Rightarrow>
          (let min_rank = fold min (map snd rs) (snd r);
               max_rank = fold max (map snd rs) (snd r);
               rank_range = (if max_rank \<noteq> min_rank then max_rank - min_rank else 1)
           in fold (\<lambda>(rowid, rank) keyword_scores.
                      keyword_scores(rowid \<mapsto>
                        (if rank_range \<noteq> 0 then 1 - ((rank - min_rank) / rank_range) else 1)))
                fts_rows Map.empty))"

definition keyword_scores :: "fts5 \<Rightarrow> db \<Rightarrow> string \<Rightarrow> int \<Rightarrow> (int \<rightharpoonup> real)" where
  "keyword_scores engine s query limit =
     (let safe_query = sanitize query
      in if strip safe_query \<noteq> []
         then (case fts_query engine s safe_query (limit * 3) of
                 Inl e \<Rightarrow> Map.empty
               | Inr fts_rows \<Rightarrow> normalize_ranks fts_rows)
         else Map.empty)"

text \<open>
  Step 5 of \<^verbatim>\<open>search\<close>: one result for every entry of \<^verbatim>\<open>vector_scores\<close>, in its
  order; a row id without a keyword score gets \<^verbatim>\<open>keyword_scores.get(mem_id, 0.0)\<close>.
  The result dictionary has a fixed set of string keys and is a record; its key
  \<^verbatim>\<open>"id"\<close> is the field \<open>mem_id\<close>.
\<close>

record scored =
  mem_id :: int
  res_content :: string
  res_category :: string
  res_created_at :: string
  score :: real
  res_vector_score :: real
  keyword_score :: real

definition combine :: "(int \<times> vector_entry) list \<Rightarrow> (int \<rightharpoonup> real) \<Rightarrow> scored list" where
  "combine vs ks =
     map (\<lambda>(i, data).
            (let v_score = vector_score data;
                 k_score = (case ks i of None \<Rightarrow> 0 | Some k \<Rightarrow> k);
                 hybrid_score = (VECTOR_WEIGHT * v_score) + (KEYWORD_WEIGHT * k_score)
             in \<lparr>mem_id = i, res_content = v_content data, res_category = v_category data,
                 res_created_at = v_created_at data, score = hybrid_score,
                 res_vector_score = v_score, keyword_score = k_score\<rparr>))
         vs"

text \<open>
  \<^verbatim>\<open>
  def search(self, query, limit=5):
      query_embedding = embed_text(query)
      conn = self._connect()
      rows = conn.execute("SELECT id, content, category, embedding, created_at FROM memories").fetchall()
      if not rows:
          conn.close()
          return []
      ... steps 3, 4, 5 ...
      combined.sort(key=lambda x: x["score"], reverse=True)
      return combined[:limit]
  \<close>
  Python's sort is stable, also with \<^verbatim>\<open>reverse=True\<close>: results of equal score keep
  their order. \<open>sort_key\<close> is a stable insertion sort, here on the negated score.
\<close>

definition search :: "fastembed \<Rightarrow> fts5 \<Rightarrow> db \<Rightarrow> string \<Rightarrow> int \<Rightarrow> error + scored list" where
  "search env engine s query limit =
     (case embed_text env query of
        Inl e \<Rightarrow> Inl e
      | Inr query_embedding \<Rightarrow>
          (let rows = memories s
           in if rows = [] then Inr []
              else
                (case vector_scores query_embedding rows [] of
                   Inl e \<Rightarrow> Inl e
                 | Inr vs \<Rightarrow>
                     (let ks = keyword_scores engine s query limit;
                          combined = combine vs ks
                      in Inr (slice_to limit (sort_key (\<lambda>x. - score x) combined))))))"

subsection \<open>get_all\<close>

text \<open>
  \<^verbatim>\<open>
  def get_all(self, limit=100):
      rows = conn.execute(
          "SELECT id, content, category, created_at FROM memories ORDER BY created_at DESC LIMIT ?",
          (limit,)).fetchall()
      return [{id: r[0], "content": r[1], "category": r[2], "created_at": r[3]} for r in rows]
  \<close>
  The first key of the dictionary literal is the unquoted name \<^verbatim>\<open>id\<close>, which is the
  builtin function in scope, not the string \<^verbatim>\<open>"id"\<close>. A key is therefore the builtin or
  a string; a value is an integer or a string. The dictionary is an association list,
  read with \<open>map_of\<close>. Rows of equal \<^verbatim>\<open>created_at\<close> keep the order of the table.
\<close>

datatype dict_key = BuiltinId | Str string

datatype py_value = IntVal int | StrVal string

definition order_by_created_at_desc :: "memory_row list \<Rightarrow> memory_row list" where
  "order_by_created_at_desc rows = rev (sort_key created_at (rev rows))"

definition get_all :: "db \<Rightarrow> int \<Rightarrow> (dict_key \<times> py_value) list list" where
  "get_all s limit =
     map (\<lambda>r. [(BuiltinId, IntVal (row_id r)),
               (Str ''content'', StrVal (content r)),
               (Str ''category'', StrVal (category r)),
               (Str ''created_at'', StrVal (created_at r))])
       (sql_limit limit (order_by_created_at_desc (memories s)))"

subsection \<open>Sequences of writes\<close>

text \<open>
  The store is written by \<^verbatim>\<open>save\<close> and \<^verbatim>\<open>delete\<close> only. A history of the store is a
  list of such calls, run from the empty database that \<^verbatim>\<open>_init_db\<close> creates; a call of
  \<^verbatim>\<open>save\<close> that raises leaves the database as it was.
\<close>

datatype operation = Save string string string | Delete int

fun apply_operation :: "fastembed \<Rightarrow> db \<Rightarrow> operation \<Rightarrow> db" where
  "apply_operation env s (Save now c cat) = snd (save env now s c cat)"
| "apply_operation env s (Delete memory_id) = snd (delete s memory_id)"

fun run :: "fastembed \<Rightarrow> db \<Rightarrow> operation list \<Rightarrow> db" where
  "run env s [] = s"
| "run env s (x # xs) = run env (apply_operation env s x) xs"

subsection \<open>Conditions used in the statements\<close>

text \<open>Every stored embedding buffer has a length that is a multiple of the float width.\<close>

definition blob_widths_ok :: "db \<Rightarrow> bool" where
  "blob_widths_ok s =
     list_all (\<lambda>r. case embedding r of None \<Rightarrow> True | Some b \<Rightarrow> length b mod 4 = 0) (memories s)"

text \<open>
  The index mirrors the table: the row ids of \<^verbatim>\<open>memories_fts\<close>, in order, are those of
  \<^verbatim>\<open>memories\<close>.
\<close>

definition mirrored :: "db \<Rightarrow> bool" where
  "mirrored s = (map fts_rowid (memories_fts s) = map row_id (memories s))"

text \<open>
  The keyword step does not depend on the limit \<open>k\<close> it is given: the sanitised query is
  blank (the step is skipped), or the engine fails, or it matches at most \<open>k\<close> rows, so
  that \<^verbatim>\<open>LIMIT k\<close> cuts nothing off.
\<close>

definition keyword_batch_fits :: "fts5 \<Rightarrow> db \<Rightarrow> string \<Rightarrow> int \<Rightarrow> bool" where
  "keyword_batch_fits engine s query k =
     (strip (sanitize query) = []
      \<or> (case engine (memories_fts s) (sanitize query) of
            Inl e \<Rightarrow> True
          | Inr matches \<Rightarrow> int (length matches) \<le> k))"

text \<open>The ids of a search result, or its exception.\<close>

definition result_ids :: "error + scored list \<Rightarrow> error + int list" where
  "result_ids r = (case r of Inl e \<Rightarrow> Inl e | Inr xs \<Rightarrow> Inr (map mem_id xs))"

section \<open>Example stores\<close>

text \<open>
  A full-text engine given by a table of ranks: it matches the indexed rows the table
  lists, whatever the expression.
\<close>

definition table_engine :: "(int \<times> real) list \<Rightarrow> fts5" where
  "table_engine t rows safe_query = Inr (filter (\<lambda>(i, r). i \<in> set (map fts_rowid rows)) t)"

text \<open>Single-precision patterns: 1.0, 0.75, 0.5, 0.25.\<close>

definition f_1 :: f32 where "f_1 = 0x3F800000"
definition f_075 :: f32 where "f_075 = 0x3F400000"
definition f_05 :: f32 where "f_05 = 0x3F000000"
definition f_025 :: f32 where "f_025 = 0x3E800000"

text \<open>A model that embeds every text as the one-dimensional vector \<open>[1.0]\<close>.\<close>

definition unit_model :: "string \<Rightarrow> f32 list" where
  "unit_model text = [f_1]"

text \<open>
  One record whose embedding is NULL, as the schema allows, mirrored in the index; and
  the same record with a three-byte buffer in the embedding column.
\<close>

definition dark_row :: "byte list option \<Rightarrow> memory_row" where
  "dark_row emb =
     \<lparr>row_id = 1, content = ''User prefers dark mode'', category = ''preference'',
      embedding = emb, created_at = ''2025-01-01T09:00:00'', updated_at = ''2025-01-01T09:00:00''\<rparr>"

definition dark_db :: "byte list option \<Rightarrow> db" where
  "dark_db emb =
     \<lparr>memories = [dark_row emb],
      memories_fts = [\<lparr>fts_rowid = 1, fts_content = ''User prefers dark mode'',
                       fts_category = ''preference''\<rparr>],
      seq = 1\<rparr>"

definition dark_engine :: fts5 where
  "dark_engine = table_engine [(1, - 1)]"

text \<open>
  The rank FTS5 gives a row for a query of one term, with the default column weights
  (its \<^verbatim>\<open>bm25()\<close> function): with \<open>N\<close> rows in the index, \<open>n\<close> of them holding the
  term, \<open>tf\<close> occurrences of the term in the row, \<open>dl\<close> tokens in the row (all columns)
  and \<open>avgdl\<close> tokens in a row on average,
  \<open>rank = - idf * tf * (k1 + 1) / (tf + k1 * (1 - b + b * dl / avgdl))\<close>, where
  \<open>k1 = 1.2\<close>, \<open>b = 0.75\<close> and \<open>idf = ln ((N - n + 0.5) / (n + 0.5))\<close>, replaced by
  \<open>10^-6\<close> when it is not positive.
\<close>

definition fts5_idf :: "nat \<Rightarrow> nat \<Rightarrow> real" where
  "fts5_idf N n =
     (let idf = ln ((real N - real n + 1 / 2) / (real n + 1 / 2))
      in if idf \<le> 0 then 1 / 10 ^ 6 else idf)"

definition bm25_rank :: "real \<Rightarrow> nat \<Rightarrow> nat \<Rightarrow> real \<Rightarrow> real" where
  "bm25_rank idf tf dl avgdl =
     - (idf * (real tf * (6 / 5 + 1)) / (real tf + 6 / 5 * (1 - 3 / 4 + 3 / 4 * real dl / avgdl)))"

text \<open>
  Five records with five-dimensional embeddings. The query vector is
  \<open>(0.75, 0.5, 0.25, 0.25, 0.25)\<close>, of sum of squares 1; the stored vectors are unit
  vectors along one axis, so the similarities are 0.25, 0.5, 0.5, 0.25 and 0.75.

  \<open>deploy_engine\<close> is the answer of FTS5 to \<^verbatim>\<open>MATCH 'deploy'\<close> on these rows. Records 1
  to 4 hold the term once, record 5 does not. The rows have 2, 4, 5, 31 and 3 tokens (the
  words of the content and the one word of the category), 9 on average. Four of five
  rows match, so the idf is \<open>10^-6\<close>, and the ranks are \<open>-11/7500000\<close>,
  \<open>-11/8500000\<close>, \<open>-11/9000000\<close> and \<open>-1/2000000\<close>, about \<open>-1.467e-6\<close>,
  \<open>-1.294e-6\<close>, \<open>-1.222e-6\<close> and \<open>-5e-7\<close>.
\<close>

definition query_model :: "string \<Rightarrow> f32 list" where
  "query_model text = [f_075, f_05, f_025, f_025, f_025]"

definition axis_1 :: "byte list" where
  "axis_1 = serialize_vector [f_1, 0, 0, 0, 0]"

definition axis_2 :: "byte list" where
  "axis_2 = serialize_vector [0, f_1, 0, 0, 0]"

definition axis_3 :: "byte list" where
  "axis_3 = serialize_vector [0, 0, f_1, 0, 0]"

definition deploy_row :: "int \<Rightarrow> string \<Rightarrow> byte list \<Rightarrow> memory_row" where
  "deploy_row i c emb =
     \<lparr>row_id = i, content = c, category = ''lesson'', embedding = Some emb,
      created_at = ''2025-01-01T09:00:00'', updated_at = ''2025-01-01T09:00:00''\<rparr>"

definition long_lesson :: string where
  "long_lesson =
     ''the last time we tried to deploy on a friday evening it rained all night and the build server lost power twice before anyone noticed that the release had stalled''"

definition deploy_db :: db where
  "deploy_db =
     \<lparr>memories =
        [deploy_row 1 ''deploy'' axis_3,
         deploy_row 2 ''deploy on Fridays'' axis_2,
         deploy_row 3 ''never deploy on Fridays'' axis_2,
         deploy_row 4 long_lesson axis_3,
         deploy_row 5 ''release checklist'' axis_1],
      memories_fts =
        [\<lparr>fts_rowid = 1, fts_content = ''deploy'', fts_category = ''lesson''\<rparr>,
         \<lparr>fts_rowid = 2, fts_content = ''deploy on Fridays'', fts_category = ''lesson''\<rparr>,
         \<lparr>fts_rowid = 3, fts_content = ''never deploy on Fridays'', fts_category = ''lesson''\<rparr>,
         \<lparr>fts_rowid = 4, fts_content = long_lesson, fts_category = ''lesson''\<rparr>,
         \<lparr>fts_rowid = 5, fts_content = ''release checklist'', fts_category = ''lesson''\<rparr>],
      seq = 5\<rparr>"

definition deploy_engine :: fts5 where
  "deploy_engine =
     table_engine
       [(1, bm25_rank (fts5_idf 5 4) 1 2 9),
        (2, bm25_rank (fts5_idf 5 4) 1 4 9),
        (3, bm25_rank (fts5_idf 5 4) 1 5 9),
        (4, bm25_rank (fts5_idf 5 4) 1 31 9)]"

text \<open>
  Two records, both indexed: the first has a NULL embedding, the second a stored
  vector. The engine \<open>dark_engine\<close> matches the first.
\<close>

definition mixed_db :: db where
  "mixed_db =
     \<lparr>memories = [dark_row None, deploy_row 2 ''deploy on Fridays'' axis_2],
      memories_fts =
        [\<lparr>fts_rowid = 1, fts_content = ''User prefers dark mode'', fts_category = ''preference''\<rparr>,
         \<lparr>fts_rowid = 2, fts_content = ''deploy on Fridays'', fts_category = ''lesson''\<rparr>],
      seq = 2\<rparr>"

section \<open>Properties of the vector codec\<close>

text \<open>
  Reading back the four bytes of a pattern gives the pattern: each bit of the result is
  looked up in the byte it was written to.
\<close>

lemma unpack_f_pack_f: "unpack_f (ucast w) (ucast (drop_bit 8 w)) (ucast (drop_bit 16 w)) (ucast (drop_bit 24 w)) = (w::f32)"
proof (rule bit_word_eqI)
  fix n assume n: "n < LENGTH(32)"
  consider "n < 8" | "8 \<le> n" "n < 16" | "16 \<le> n" "n < 24" | "24 \<le> n" "n < 32"
    using n by fastforce
  then show "bit (unpack_f (ucast w) (ucast (drop_bit 8 w)) (ucast (drop_bit 16 w)) (ucast (drop_bit 24 w))) n = bit w n"
    by cases (auto simp: unpack_f_def bit_simps)
qed

lemma unpack_floats_pack_f: "unpack_floats (pack_f w @ rest) = w # unpack_floats rest"
  by (simp add: pack_f_def unpack_f_pack_f)

lemma unpack_floats_serialize: "unpack_floats (serialize_vector v) = v"
  by (induction v) (simp_all add: serialize_vector_def unpack_floats_pack_f)

lemma length_serialize_vector: "length (serialize_vector v) = 4 * length v"
  by (induction v) (simp_all add: serialize_vector_def pack_f_def)

lemma deserialize_serialize: "deserialize_vector (serialize_vector v) = Inr v"
  by (simp add: deserialize_vector_def length_serialize_vector unpack_floats_serialize)

text \<open>
  Claim C8. For every vector \<open>v\<close> of single-precision numbers (the components that the
  4-byte storage type represents exactly), \<open>deserialize_vector (serialize_vector v)\<close>
  returns \<open>v\<close> itself, and the buffer has four bytes for each component.
\<close>

theorem codec_round_trip:
  "deserialize_vector (serialize_vector v) = Inr v \<and> length (serialize_vector v) = 4 * length v"
  by (simp add: deserialize_serialize length_serialize_vector)

section \<open>Properties of cosine similarity\<close>

lemma norm_squared_of_4: "(4::real) powr (5 / 100) * 4 powr (5 / 100) = 4 powr (1 / 10)"
  by (simp add: powr_add [symmetric])

text \<open>
  Claim C1. The claim asks that \<open>cosine_similarity a b\<close> be the dot product over the
  product of the Euclidean norms, a number between -1 and 1. On the vectors \<open>[2.0]\<close>
  and \<open>[2.0]\<close> the source's exponent \<^verbatim>\<open>.05\<close> gives \<open>4 / 4 powr (1/10)\<close>, which is more
  than 1, where the reference definition gives exactly 1.
\<close>

theorem cosine_similarity_exceeds_one:
  "1 < cosine_similarity [2] [2] \<and> cosine_reference [2] [2] = 1"
proof
  have lt: "(4::real) powr (1 / 10) < 4 powr 1"
    by (rule powr_less_mono) simp_all
  have pos: "0 < (4::real) powr (1 / 10)" by simp
  have nz: "(4::real) powr (5 / 100) \<noteq> 0" by simp
  have "cosine_similarity [2] [2] = 4 / (4 powr (5 / 100) * 4 powr (5 / 100))"
    using nz by (simp add: cosine_similarity_def Let_def)
  also have "\<dots> = 4 / 4 powr (1 / 10)" by (simp only: norm_squared_of_4)
  finally have eq: "cosine_similarity [2] [2] = 4 / 4 powr (1 / 10)" .
  from lt pos have "1 < 4 / (4::real) powr (1 / 10)" by (simp add: field_simps)
  with eq show "1 < cosine_similarity [2] [2]" by simp
next
  have "(4::real) powr (1 / 2) = 2"
    using powr_half_sqrt [of "4::real"] by simp
  then show "cosine_reference [2] [2] = 1"
    by (simp add: cosine_reference_def euclidean_norm_def)
qed

section \<open>The scan of the stored vectors\<close>

lemma deserialize_vector_corrupt: "length data mod 4 \<noteq> 0 \<Longrightarrow> deserialize_vector data = Inl StructError"
proof -
  assume "length data mod 4 \<noteq> 0"
  then have "length data \<noteq> 4 * (length data div 4)" by presburger
  then show ?thesis by (simp add: deserialize_vector_def Let_def)
qed

lemma vector_scores_error: "vector_scores q rows acc = Inl e \<Longrightarrow> e = StructError"
proof (induction rows arbitrary: acc)
  case Nil
  then show ?case by simp
next
  case (Cons row rows)
  then show ?case
    by (auto simp: deserialize_vector_def Let_def split: option.splits if_splits sum.splits)
qed

lemma vector_scores_corrupt:
  assumes "r \<in> set rows" and "embedding r = Some data" and "length data mod 4 \<noteq> 0"
  shows "vector_scores q rows acc = Inl StructError"
  using assms(1)
proof (induction rows arbitrary: acc)
  case Nil
  then show ?case by simp
next
  case (Cons row rows)
  show ?case
  proof (cases "r = row")
    case True
    from assms(3) have "data \<noteq> []" by auto
    with True assms(2,3) show ?thesis
      by (simp add: deserialize_vector_corrupt)
  next
    case False
    with Cons.prems have "r \<in> set rows" by simp
    then have "\<And>acc'. vector_scores q rows acc' = Inl StructError" by (rule Cons.IH)
    then show ?thesis
      by (auto simp: deserialize_vector_def Let_def split: option.splits sum.splits)
  qed
qed

lemma vector_scores_ok:
  "list_all (\<lambda>r. case embedding r of None \<Rightarrow> True | Some b \<Rightarrow> length b mod 4 = 0) rows
   \<Longrightarrow> \<exists>vs. vector_scores q rows acc = Inr vs"
proof (induction rows arbitrary: acc)
  case Nil
  then show ?case by simp
next
  case (Cons row rows)
  then show ?case
    by (auto simp: deserialize_vector_def Let_def split: option.splits sum.splits)
qed

lemma keys_update: "fst ` set (AList.update k v al) = insert k (fst ` set al)"
  by (induction al) auto

lemma vector_scores_keys:
  "vector_scores q rows acc = Inr vs \<Longrightarrow>
   fst ` set vs \<subseteq> fst ` set acc \<union> row_id ` {r \<in> set rows. \<exists>b. embedding r = Some b \<and> b \<noteq> []}"
proof (induction rows arbitrary: acc)
  case Nil
  then show ?case by auto
next
  case (Cons row rows)
  show ?case
  proof (cases "\<exists>b. embedding row = Some b \<and> b \<noteq> []")
    case False
    with Cons.prems have "vector_scores q rows acc = Inr vs"
      by (auto split: option.splits if_splits)
    from Cons.IH[OF this] show ?thesis by auto
  next
    case True
    then obtain blob where blob: "embedding row = Some blob" "blob \<noteq> []" by auto
    with Cons.prems obtain acc' where
      run: "vector_scores q rows acc' = Inr vs" and
      acc': "fst ` set acc' = insert (row_id row) (fst ` set acc)"
      by (auto simp: Let_def keys_update split: sum.splits)
    from Cons.IH[OF run] acc' blob show ?thesis by auto
  qed
qed

lemma combine_ids: "map mem_id (combine vs ks) = map fst vs"
  by (induction vs) (auto simp: combine_def Let_def)

lemma set_slice_to: "set (slice_to limit xs) \<subseteq> set xs"
  by (auto simp: slice_to_def dest: in_set_takeD)

lemma search_result_ids:
  assumes "search env engine s q limit = Inr res"
  shows "mem_id ` set res \<subseteq> row_id ` {r \<in> set (memories s). \<exists>b. embedding r = Some b \<and> b \<noteq> []}"
proof (cases "memories s = []")
  case True
  with assms show ?thesis by (auto simp: search_def split: sum.splits)
next
  case False
  from assms False obtain qe vs where
    vs: "vector_scores qe (memories s) [] = Inr vs" and
    res: "res = slice_to limit (sort_key (\<lambda>x. - score x) (combine vs (keyword_scores engine s q limit)))"
    by (auto simp: search_def Let_def split: sum.splits)
  have "mem_id ` set res \<subseteq> mem_id ` set (combine vs (keyword_scores engine s q limit))"
    using set_slice_to[of limit "sort_key (\<lambda>x. - score x) (combine vs (keyword_scores engine s q limit))"]
    unfolding res by auto
  also have "\<dots> = fst ` set vs"
    using combine_ids[of vs "keyword_scores engine s q limit"] by (metis set_map)
  also have "\<dots> \<subseteq> row_id ` {r \<in> set (memories s). \<exists>b. embedding r = Some b \<and> b \<noteq> []}"
    using vector_scores_keys[OF vs] by simp
  finally show ?thesis .
qed

section \<open>Evaluating the example stores\<close>

lemma f32_val_consts:
  "f32_val 0 = 0" "f32_val f_1 = 1" "f32_val f_075 = 3 / 4" "f32_val f_05 = 1 / 2" "f32_val f_025 = 1 / 4"
  by (simp_all add: f32_val_def f_1_def f_075_def f_05_def f_025_def)

lemma query_vector: "map f32_val (query_model text) = [3 / 4, 1 / 2, 1 / 4, 1 / 4, 1 / 4]"
  by (simp add: query_model_def f32_val_consts)

lemma axis_nonempty: "axis_1 \<noteq> []" "axis_2 \<noteq> []" "axis_3 \<noteq> []"
  by (simp_all add: axis_1_def axis_2_def axis_3_def serialize_vector_def pack_f_def)

lemma deserialize_axis:
  "deserialize_vector axis_1 = Inr [f_1, 0, 0, 0, 0]"
  "deserialize_vector axis_2 = Inr [0, f_1, 0, 0, 0]"
  "deserialize_vector axis_3 = Inr [0, 0, f_1, 0, 0]"
  by (simp_all add: axis_1_def axis_2_def axis_3_def deserialize_serialize)

lemma cosine_axis:
  "cosine_similarity [3 / 4, 1 / 2, 1 / 4, 1 / 4, 1 / 4] [1, 0, 0, 0, 0] = 3 / 4"
  "cosine_similarity [3 / 4, 1 / 2, 1 / 4, 1 / 4, 1 / 4] [0, 1, 0, 0, 0] = 1 / 2"
  "cosine_similarity [3 / 4, 1 / 2, 1 / 4, 1 / 4, 1 / 4] [0, 0, 1, 0, 0] = 1 / 4"
  by (simp_all add: cosine_similarity_def)

lemma cosine_unit: "cosine_similarity [1] [1] = 1"
  by (simp add: cosine_similarity_def)

subsection \<open>The five deploy records\<close>

lemma deploy_nonempty: "memories deploy_db \<noteq> []"
  by (simp add: deploy_db_def)

lemma deploy_vector_scores:
  "vector_scores (query_model text) (memories deploy_db) [] = Inr
     [(1, \<lparr>v_content = ''deploy'', v_category = ''lesson'',
           v_created_at = ''2025-01-01T09:00:00'', vector_score = 1 / 4\<rparr>),
      (2, \<lparr>v_content = ''deploy on Fridays'', v_category = ''lesson'',
           v_created_at = ''2025-01-01T09:00:00'', vector_score = 1 / 2\<rparr>),
      (3, \<lparr>v_content = ''never deploy on Fridays'', v_category = ''lesson'',
           v_created_at = ''2025-01-01T09:00:00'', vector_score = 1 / 2\<rparr>),
      (4, \<lparr>v_content = long_lesson, v_category = ''lesson'',
           v_created_at = ''2025-01-01T09:00:00'', vector_score = 1 / 4\<rparr>),
      (5, \<lparr>v_content = ''release checklist'', v_category = ''lesson'',
           v_created_at = ''2025-01-01T09:00:00'', vector_score = 3 / 4\<rparr>)]"
  by (simp add: deploy_db_def deploy_row_def axis_nonempty deserialize_axis query_vector
      f32_val_consts cosine_axis)

lemma strip_deploy: "strip (sanitize ''deploy'') \<noteq> []"
  by (simp add: strip_def sanitize_def is_word_char_def is_space_def)

text \<open>Four of five rows hold the term: the logarithm is negative and the idf is \<open>10^-6\<close>.\<close>

lemma deploy_idf: "fts5_idf 5 4 = 1 / 1000000"
proof -
  have "ln ((real 5 - real 4 + 1 / 2) / (real 4 + 1 / 2)) = ln (1 / 3)"
    by simp
  moreover have "ln (1 / 3 :: real) \<le> 0"
    by (simp add: ln_le_zero_iff)
  ultimately show ?thesis
    by (simp add: fts5_idf_def Let_def)
qed

lemma deploy_ranks:
  "bm25_rank (fts5_idf 5 4) 1 2 9 = - 11 / 7500000"
  "bm25_rank (fts5_idf 5 4) 1 4 9 = - 11 / 8500000"
  "bm25_rank (fts5_idf 5 4) 1 5 9 = - 11 / 9000000"
  "bm25_rank (fts5_idf 5 4) 1 31 9 = - 1 / 2000000"
  by (simp_all add: deploy_idf bm25_rank_def)

lemma deploy_matches:
  "deploy_engine (memories_fts deploy_db) q =
     Inr [(1, - 11 / 7500000), (2, - 11 / 8500000), (3, - 11 / 9000000), (4, - 1 / 2000000)]"
  unfolding deploy_engine_def deploy_ranks
  by (simp add: table_engine_def deploy_db_def)

text \<open>With \<^verbatim>\<open>LIMIT 3\<close> the fourth match is cut off; with 6 or 9 all four come back.\<close>

lemma deploy_fts_3:
  "fts_query deploy_engine deploy_db q 3 =
     Inr [(1, - 11 / 7500000), (2, - 11 / 8500000), (3, - 11 / 9000000)]"
  by (simp add: fts_query_def sqlite_integer_def deploy_matches sql_limit_def numeral_eq_Suc)

lemma deploy_fts_6:
  "fts_query deploy_engine deploy_db q 6 =
     Inr [(1, - 11 / 7500000), (2, - 11 / 8500000), (3, - 11 / 9000000), (4, - 1 / 2000000)]"
  by (simp add: fts_query_def sqlite_integer_def deploy_matches sql_limit_def numeral_eq_Suc)

lemma deploy_fts_9:
  "fts_query deploy_engine deploy_db q 9 =
     Inr [(1, - 11 / 7500000), (2, - 11 / 8500000), (3, - 11 / 9000000), (4, - 1 / 2000000)]"
  by (simp add: fts_query_def sqlite_integer_def deploy_matches sql_limit_def numeral_eq_Suc)

text \<open>The normalised keyword scores move with the limit: the batch is another one.\<close>

lemma deploy_keyword_1:
  "keyword_scores deploy_engine deploy_db ''deploy'' 1 = [1 \<mapsto> 1, 2 \<mapsto> 5 / 17, 3 \<mapsto> 0]"
  by (simp add: keyword_scores_def strip_deploy deploy_fts_3 normalize_ranks_def)

lemma deploy_keyword_2:
  "keyword_scores deploy_engine deploy_db ''deploy'' 2 =
     [1 \<mapsto> 1, 2 \<mapsto> 405 / 493, 3 \<mapsto> 65 / 87, 4 \<mapsto> 0]"
  by (simp add: keyword_scores_def strip_deploy deploy_fts_6 normalize_ranks_def)

lemma deploy_keyword_3:
  "keyword_scores deploy_engine deploy_db ''deploy'' 3 =
     [1 \<mapsto> 1, 2 \<mapsto> 405 / 493, 3 \<mapsto> 65 / 87, 4 \<mapsto> 0]"
  by (simp add: keyword_scores_def strip_deploy deploy_fts_9 normalize_ranks_def)

lemma deploy_search_3:
  "search (TextEmbedding query_model) deploy_engine deploy_db ''deploy'' 3 = Inr
     [\<lparr>mem_id = 2, res_content = ''deploy on Fridays'', res_category = ''lesson'',
       res_created_at = ''2025-01-01T09:00:00'', score = 5881 / 9860, res_vector_score = 1 / 2,
       keyword_score = 405 / 493\<rparr>,
      \<lparr>mem_id = 3, res_content = ''never deploy on Fridays'', res_category = ''lesson'',
       res_created_at = ''2025-01-01T09:00:00'', score = 333 / 580, res_vector_score = 1 / 2,
       keyword_score = 65 / 87\<rparr>,
      \<lparr>mem_id = 5, res_content = ''release checklist'', res_category = ''lesson'',
       res_created_at = ''2025-01-01T09:00:00'', score = 21 / 40, res_vector_score = 3 / 4,
       keyword_score = 0\<rparr>]"
  by (simp add: search_def embed_text_def get_model_def deploy_nonempty deploy_vector_scores
      deploy_keyword_3 combine_def VECTOR_WEIGHT_def KEYWORD_WEIGHT_def slice_to_def)

lemma deploy_fits_6: "keyword_batch_fits deploy_engine deploy_db ''deploy'' (2 * 3)"
  by (simp add: keyword_batch_fits_def deploy_matches)

subsection \<open>The dark-mode record\<close>

lemma dark_memories: "memories (dark_db emb) = [dark_row emb]"
  by (simp add: dark_db_def)

lemma strip_dark: "strip (sanitize ''dark mode'') \<noteq> []" "strip (sanitize '''') = []"
  by (simp_all add: strip_def sanitize_def is_word_char_def is_space_def)

lemma dark_keyword: "keyword_scores dark_engine (dark_db emb) ''dark mode'' 5 = [1 \<mapsto> 1]"
  by (simp add: keyword_scores_def strip_dark fts_query_def sqlite_integer_def dark_engine_def
      table_engine_def dark_db_def sql_limit_def normalize_ranks_def)

lemma dark_keyword_empty: "keyword_scores dark_engine (dark_db emb) '''' n = Map.empty"
  by (simp add: keyword_scores_def strip_dark)

lemma unit_blob_nonempty: "serialize_vector [f_1] \<noteq> []"
  by (simp add: serialize_vector_def pack_f_def)

lemma dark_vector_scores_unit:
  "vector_scores (unit_model text) [dark_row (Some (serialize_vector [f_1]))] [] =
     Inr [(1, \<lparr>v_content = ''User prefers dark mode'', v_category = ''preference'',
               v_created_at = ''2025-01-01T09:00:00'', vector_score = 1\<rparr>)]"
  by (simp add: unit_blob_nonempty dark_row_def deserialize_serialize unit_model_def
      f32_val_consts cosine_unit)

lemma dark_vector_scores_null: "vector_scores qe [dark_row None] [] = Inr []"
  by (simp add: dark_row_def)

lemma dark_vector_scores_corrupt:
  "vector_scores qe [dark_row (Some [1, 2, 3])] [] = Inl StructError"
  by (simp add: dark_row_def deserialize_vector_def)

lemma dark_search_empty_query:
  "search (TextEmbedding unit_model) dark_engine (dark_db (Some (serialize_vector [f_1]))) '''' 5 =
     Inr [\<lparr>mem_id = 1, res_content = ''User prefers dark mode'', res_category = ''preference'',
           res_created_at = ''2025-01-01T09:00:00'', score = 7 / 10, res_vector_score = 1,
           keyword_score = 0\<rparr>]"
  by (simp add: search_def embed_text_def get_model_def dark_memories dark_keyword_empty
      dark_vector_scores_unit combine_def slice_to_def VECTOR_WEIGHT_def KEYWORD_WEIGHT_def
      del: vector_scores.simps)

subsection \<open>The two mixed records\<close>

lemma mixed_memories:
  "memories mixed_db = [dark_row None, deploy_row 2 ''deploy on Fridays'' axis_2]"
  by (simp add: mixed_db_def)

lemma mixed_vector_scores:
  "vector_scores (query_model text) [dark_row None, deploy_row 2 ''deploy on Fridays'' axis_2] [] =
     Inr [(2, \<lparr>v_content = ''deploy on Fridays'', v_category = ''lesson'',
               v_created_at = ''2025-01-01T09:00:00'', vector_score = 1 / 2\<rparr>)]"
  by (simp add: dark_row_def deploy_row_def axis_nonempty deserialize_axis query_vector
      f32_val_consts cosine_axis)

lemma mixed_keyword: "keyword_scores dark_engine mixed_db ''dark mode'' 5 = [1 \<mapsto> 1]"
  by (simp add: keyword_scores_def strip_dark fts_query_def sqlite_integer_def dark_engine_def
      table_engine_def mixed_db_def sql_limit_def normalize_ranks_def)

lemma mixed_search:
  "search (TextEmbedding query_model) dark_engine mixed_db ''dark mode'' 5 =
     Inr [\<lparr>mem_id = 2, res_content = ''deploy on Fridays'', res_category = ''lesson'',
           res_created_at = ''2025-01-01T09:00:00'', score = 7 / 20, res_vector_score = 1 / 2,
           keyword_score = 0\<rparr>]"
  by (simp add: search_def embed_text_def get_model_def mixed_memories mixed_keyword
      mixed_vector_scores combine_def slice_to_def VECTOR_WEIGHT_def KEYWORD_WEIGHT_def
      del: vector_scores.simps)

section \<open>Properties of the keyword step and the ranking\<close>

lemma keyword_scores_blank:
  "strip (sanitize query) = [] \<Longrightarrow> keyword_scores engine s query limit = Map.empty"
  by (simp add: keyword_scores_def)

lemma sql_limit_all: "int (length xs) \<le> k \<Longrightarrow> sql_limit k xs = xs"
  by (simp add: sql_limit_def)

text \<open>When nothing is cut off, the keyword scores are those of the whole match list.\<close>

lemma keyword_scores_fits:
  assumes "keyword_batch_fits engine s query (k * 3)" and "sqlite_integer (k * 3)"
  shows "keyword_scores engine s query k =
           (if strip (sanitize query) = [] then Map.empty
            else case engine (memories_fts s) (sanitize query) of
                   Inl e \<Rightarrow> Map.empty
                 | Inr matches \<Rightarrow> normalize_ranks (sort_key snd matches))"
  using assms
  by (auto simp: keyword_scores_def keyword_batch_fits_def fts_query_def sql_limit_all
      split: sum.splits)

lemma keyword_batch_fits_mono:
  "keyword_batch_fits engine s query k \<Longrightarrow> k \<le> k' \<Longrightarrow> keyword_batch_fits engine s query k'"
  by (auto simp: keyword_batch_fits_def split: sum.splits)

lemma search_Inr_cases:
  assumes "search env engine s query limit = Inr res"
  shows "res = [] \<or> (\<exists>vs. res = slice_to limit (sort_key (\<lambda>x. - score x)
                         (combine vs (keyword_scores engine s query limit))))"
  using assms
  by (auto simp: search_def Let_def split: sum.splits if_splits)

lemma combine_without_keywords:
  "x \<in> set (combine vs Map.empty) \<Longrightarrow>
     keyword_score x = 0 \<and> score x = VECTOR_WEIGHT * res_vector_score x"
  by (auto simp: combine_def Let_def)

lemma sorted_slice_to: "sorted (map f xs) \<Longrightarrow> sorted (map f (slice_to limit xs))"
proof -
  assume "sorted (map f xs)"
  then have "sorted (take n (map f xs))" for n
    by (rule sorted_wrt_take)
  then have "sorted (map f (take n xs))" for n
    by (simp add: take_map)
  then show ?thesis
    by (simp add: slice_to_def)
qed

section \<open>Properties of search\<close>

text \<open>
  Claim C2, as stated. With the embedding model unavailable the claim expects keyword-only
  results. The store holds one record that the keyword query matches with score 1, yet
  \<^verbatim>\<open>search\<close> raises: its first statement is \<^verbatim>\<open>embed_text(query)\<close>, outside any
  \<^verbatim>\<open>try\<close>.
\<close>

theorem search_degrades_counterexample:
  "search NotInstalled dark_engine (dark_db (Some (serialize_vector [f_1]))) ''dark mode'' 5
     = Inl ImportError
   \<and> keyword_scores dark_engine (dark_db (Some (serialize_vector [f_1]))) ''dark mode'' 5 1
     = Some 1"
  by (simp add: search_def embed_text_def get_model_def dark_keyword)

text \<open>
  Claim C2, amended. When the embedding model is unavailable, \<^verbatim>\<open>search\<close> fails with the
  \<^verbatim>\<open>ImportError\<close> of \<^verbatim>\<open>_get_model\<close>, for every store, query, limit and full-text
  engine: the failure is propagated and no result is returned.
\<close>

theorem search_propagates_import_error:
  "search NotInstalled engine s query limit = Inl ImportError"
  by (simp add: search_def embed_text_def get_model_def)

text \<open>
  Claim C3, as stated. The first record of \<open>mixed_db\<close> has a NULL embedding and is matched
  by the keyword query with score 1; the result holds the second record only.
\<close>

theorem null_embedding_counterexample:
  "result_ids (search (TextEmbedding query_model) dark_engine mixed_db ''dark mode'' 5) = Inr [2]
   \<and> embedding (dark_row None) = None
   \<and> memories mixed_db = [dark_row None, deploy_row 2 ''deploy on Fridays'' axis_2]
   \<and> keyword_scores dark_engine mixed_db ''dark mode'' 5 (row_id (dark_row None)) = Some 1"
proof -
  have "embedding (dark_row None) = None" "row_id (dark_row None) = 1"
    by (simp_all add: dark_row_def)
  then show ?thesis
    by (simp add: mixed_search result_ids_def mixed_memories mixed_keyword)
qed

text \<open>
  Claim C3, amended. A record whose embedding is NULL (or the empty buffer) is never among
  the results of \<^verbatim>\<open>search\<close>, whatever the keyword query matches: the results are built
  from the records that passed \<^verbatim>\<open>if emb_blob\<close>. Row ids are unique, as the primary key
  makes them.
\<close>

theorem null_embedding_never_returned:
  assumes "distinct (map row_id (memories s))"
      and "r \<in> set (memories s)"
      and "embedding r = None \<or> embedding r = Some []"
      and "search env engine s query limit = Inr res"
    shows "row_id r \<notin> mem_id ` set res"
proof
  assume "row_id r \<in> mem_id ` set res"
  with search_result_ids [OF assms(4)] obtain r' b where
    r': "r' \<in> set (memories s)" "embedding r' = Some b" "b \<noteq> []" "row_id r' = row_id r"
    by auto
  from assms(1) r'(1) assms(2) r'(4) have "r' = r"
    by (meson distinct_map inj_onD)
  with r' assms(3) show False by auto
qed

theorem null_embedding_never_returned_witness:
  "distinct (map row_id (memories mixed_db))
   \<and> dark_row None \<in> set (memories mixed_db)
   \<and> (embedding (dark_row None) = None \<or> embedding (dark_row None) = Some [])
   \<and> search (TextEmbedding query_model) dark_engine mixed_db ''dark mode'' 5 =
       Inr [\<lparr>mem_id = 2, res_content = ''deploy on Fridays'', res_category = ''lesson'',
             res_created_at = ''2025-01-01T09:00:00'', score = 7 / 20, res_vector_score = 1 / 2,
             keyword_score = 0\<rparr>]
   \<and> row_id (dark_row None) \<notin> mem_id `
       set [\<lparr>mem_id = 2, res_content = ''deploy on Fridays'', res_category = ''lesson'',
             res_created_at = ''2025-01-01T09:00:00'', score = 7 / 20, res_vector_score = 1 / 2,
             keyword_score = 0\<rparr>]"
proof -
  have h1: "distinct (map row_id (memories mixed_db))"
    by (simp add: mixed_memories dark_row_def deploy_row_def)
  have h2: "dark_row None \<in> set (memories mixed_db)"
    by (simp add: mixed_memories)
  have h3: "embedding (dark_row None) = None \<or> embedding (dark_row None) = Some []"
    by (simp add: dark_row_def)
  from null_embedding_never_returned [OF h1 h2 h3 mixed_search] h1 h2 h3 mixed_search
  show ?thesis by simp
qed

text \<open>
  Claim C5, as stated. The claim expects \<^verbatim>\<open>search("")\<close> to fail with \<open>InvalidQuery\<close>. On
  a store of one record the empty query returns that record, ranked by its vector score
  alone: the sanitised query is blank and the keyword step is skipped.
\<close>

theorem search_empty_query_counterexample:
  "search (TextEmbedding unit_model) dark_engine (dark_db (Some (serialize_vector [f_1]))) '''' 5 =
     Inr [\<lparr>mem_id = 1, res_content = ''User prefers dark mode'', res_category = ''preference'',
           res_created_at = ''2025-01-01T09:00:00'', score = 7 / 10, res_vector_score = 1,
           keyword_score = 0\<rparr>]"
  by (simp add: search_def embed_text_def get_model_def dark_memories dark_keyword_empty
      dark_vector_scores_unit combine_def slice_to_def VECTOR_WEIGHT_def KEYWORD_WEIGHT_def
      del: vector_scores.simps)

text \<open>
  Claim C5, amended. \<^verbatim>\<open>search\<close> never fails with \<open>InvalidQuery\<close>, for no query, the
  empty one included. For every query, when the embedding model is available and every
  stored embedding buffer has a length that is a multiple of 4, it returns a (possibly
  empty) result sequence: a failure of the keyword query is caught. For a query that is
  blank after sanitising (the empty one included) the keyword step is skipped: the
  outcome is the same whatever the full-text engine, every result has keyword score 0
  and the score \<open>VECTOR_WEIGHT\<close> times its vector score, and the results are in
  descending order of vector score.
\<close>

theorem search_never_invalid_query:
  "search env engine s query limit \<noteq> Inl InvalidQuery
   \<and> (blob_widths_ok s \<longrightarrow> (\<exists>res. search (TextEmbedding m) engine s query limit = Inr res))
   \<and> (strip (sanitize query) = [] \<longrightarrow>
        search env engine s query limit = search env engine' s query limit
        \<and> (search env engine s query limit = Inr res \<longrightarrow>
             (\<forall>x \<in> set res. keyword_score x = 0 \<and> score x = VECTOR_WEIGHT * res_vector_score x)
             \<and> sorted (map (\<lambda>x. - res_vector_score x) res)))"
proof (intro conjI impI)
  show "search env engine s query limit \<noteq> Inl InvalidQuery"
    by (cases env)
       (auto simp: search_def embed_text_def get_model_def Let_def split: sum.splits
          dest: vector_scores_error)
next
  assume "blob_widths_ok s"
  then obtain vs where "vector_scores (m query) (memories s) [] = Inr vs"
    using vector_scores_ok [of "memories s" "m query" "[]"] by (auto simp: blob_widths_ok_def)
  then show "\<exists>res. search (TextEmbedding m) engine s query limit = Inr res"
    by (simp add: search_def embed_text_def get_model_def Let_def)
next
  assume blank: "strip (sanitize query) = []"
  show "search env engine s query limit = search env engine' s query limit"
    unfolding search_def keyword_scores_blank [OF blank] by (rule refl)
next
  assume blank: "strip (sanitize query) = []"
     and res: "search env engine s query limit = Inr res"
  have ks: "keyword_scores engine s query limit = Map.empty"
    using blank by (rule keyword_scores_blank)
  from search_Inr_cases [OF res] ks
  consider "res = []"
    | vs where "res = slice_to limit (sort_key (\<lambda>x. - score x) (combine vs Map.empty))"
    by auto
  then have props: "(\<forall>x \<in> set res. keyword_score x = 0 \<and> score x = VECTOR_WEIGHT * res_vector_score x)
      \<and> sorted (map (\<lambda>x. - score x) res)"
  proof cases
    case 1
    then show ?thesis by simp
  next
    case (2 vs)
    have "set res \<subseteq> set (combine vs Map.empty)"
      using set_slice_to [of limit "sort_key (\<lambda>x. - score x) (combine vs Map.empty)"]
      unfolding 2 by simp
    then have "\<forall>x \<in> set res. keyword_score x = 0 \<and> score x = VECTOR_WEIGHT * res_vector_score x"
      using combine_without_keywords by blast
    moreover have "sorted (map (\<lambda>x. - score x) res)"
      unfolding 2 by (rule sorted_slice_to) (rule sorted_sort_key)
    ultimately show ?thesis by simp
  qed
  then show "\<forall>x \<in> set res. keyword_score x = 0 \<and> score x = VECTOR_WEIGHT * res_vector_score x"
    by simp
  from props have "sorted_wrt (\<lambda>x y. - score x \<le> - score y) res"
    by (simp add: sorted_map)
  then have "sorted_wrt (\<lambda>x y. - res_vector_score x \<le> - res_vector_score y) res"
  proof (rule sorted_wrt_mono_rel [rotated])
    fix x y
    assume xy: "x \<in> set res" "y \<in> set res" and le: "- score x \<le> - score y"
    from props xy have "score x = 7 / 10 * res_vector_score x"
      and "score y = 7 / 10 * res_vector_score y"
      by (simp_all add: VECTOR_WEIGHT_def)
    with le show "- res_vector_score x \<le> - res_vector_score y"
      by linarith
  qed
  then show "sorted (map (\<lambda>x. - res_vector_score x) res)"
    by (simp add: sorted_map)
qed

theorem search_never_invalid_query_witness:
  "blob_widths_ok (dark_db (Some (serialize_vector [f_1])))
   \<and> strip (sanitize '''') = []
   \<and> search (TextEmbedding unit_model) dark_engine (dark_db (Some (serialize_vector [f_1]))) '''' 5 =
       Inr [\<lparr>mem_id = 1, res_content = ''User prefers dark mode'', res_category = ''preference'',
             res_created_at = ''2025-01-01T09:00:00'', score = 7 / 10, res_vector_score = 1,
             keyword_score = 0\<rparr>]
   \<and> search (TextEmbedding unit_model) dark_engine (dark_db (Some (serialize_vector [f_1]))) '''' 5
       \<noteq> Inl InvalidQuery
   \<and> (7 / 10 :: real) = VECTOR_WEIGHT * 1"
proof -
  have h1: "blob_widths_ok (dark_db (Some (serialize_vector [f_1])))"
    by (simp add: blob_widths_ok_def dark_memories dark_row_def length_serialize_vector)
  have h2: "strip (sanitize '''') = []"
    by (rule strip_dark)
  from search_never_invalid_query
         [where env = "TextEmbedding unit_model" and engine = dark_engine
            and s = "dark_db (Some (serialize_vector [f_1]))" and query = "''''" and limit = 5
            and m = unit_model and engine' = dark_engine
            and res = "[\<lparr>mem_id = 1, res_content = ''User prefers dark mode'',
                         res_category = ''preference'', res_created_at = ''2025-01-01T09:00:00'',
                         score = 7 / 10, res_vector_score = 1, keyword_score = 0\<rparr>]"]
       h1 h2 dark_search_empty_query
  show ?thesis by simp
qed

text \<open>
  Claim C6, as stated. The claim expects a record with a buffer of three bytes to be left
  out of the scoring and the search to complete. The search raises \<^verbatim>\<open>struct.error\<close>.
\<close>

theorem corrupt_vector_counterexample:
  "search (TextEmbedding unit_model) dark_engine (dark_db (Some [1, 2, 3])) ''dark mode'' 5
     = Inl StructError"
  by (simp add: search_def embed_text_def get_model_def dark_memories dark_vector_scores_corrupt
      del: vector_scores.simps)

text \<open>
  Claim C6, amended. A buffer whose length is not a multiple of the float width is an
  error of the codec: \<^verbatim>\<open>deserialize_vector\<close> raises \<^verbatim>\<open>struct.error\<close>. \<^verbatim>\<open>search\<close> does not
  catch it: when the embedding model is available and some stored record has such a
  buffer, every search fails with that error and returns nothing.
\<close>

theorem corrupt_vector_fails_search:
  assumes "length data mod 4 \<noteq> 0"
  shows "deserialize_vector data = Inl StructError
         \<and> (r \<in> set (memories s) \<and> embedding r = Some data
              \<longrightarrow> search (TextEmbedding m) engine s query limit = Inl StructError)"
proof
  show "deserialize_vector data = Inl StructError"
    using assms by (rule deserialize_vector_corrupt)
  show "r \<in> set (memories s) \<and> embedding r = Some data
          \<longrightarrow> search (TextEmbedding m) engine s query limit = Inl StructError"
  proof
    assume a: "r \<in> set (memories s) \<and> embedding r = Some data"
    then have "memories s \<noteq> []" by auto
    moreover from a assms have "vector_scores (m query) (memories s) [] = Inl StructError"
      by (auto intro: vector_scores_corrupt)
    ultimately show "search (TextEmbedding m) engine s query limit = Inl StructError"
      by (simp add: search_def embed_text_def get_model_def)
  qed
qed

theorem corrupt_vector_fails_search_witness:
  "length [1, 2, 3 :: byte] mod 4 \<noteq> 0
   \<and> dark_row (Some [1, 2, 3]) \<in> set (memories (dark_db (Some [1, 2, 3])))
   \<and> embedding (dark_row (Some [1, 2, 3])) = Some [1, 2, 3]
   \<and> deserialize_vector [1, 2, 3] = Inl StructError
   \<and> search (TextEmbedding unit_model) dark_engine (dark_db (Some [1, 2, 3])) ''deploy'' 3
       = Inl StructError"
proof -
  have h1: "length [1, 2, 3 :: byte] mod 4 \<noteq> 0" by simp
  have h2: "dark_row (Some [1, 2, 3]) \<in> set (memories (dark_db (Some [1, 2, 3])))"
    by (simp add: dark_memories)
  have h3: "embedding (dark_row (Some [1, 2, 3])) = Some [1, 2, 3]"
    by (simp add: dark_row_def)
  from corrupt_vector_fails_search
         [OF h1, of "dark_row (Some [1, 2, 3])" "dark_db (Some [1, 2, 3])" unit_model
            dark_engine "''deploy''" 3] h1 h2 h3
  show ?thesis by simp
qed

text \<open>
  Claim C7, as stated. Record 5 is the result at limit 1 and is absent from the result at
  limit 2. The keyword query takes \<^verbatim>\<open>limit * 3\<close> rows, and the ranks are normalised over
  the rows taken: at limit 1 the fourth match is cut off and records 2 and 3 get the
  keyword scores 5/17 and 0, at limit 2 they get 405/493 and 65/87 and pass record 5.
\<close>

theorem limit_monotonicity_counterexample:
  "result_ids (search (TextEmbedding query_model) deploy_engine deploy_db ''deploy'' 1) = Inr [5]
   \<and> result_ids (search (TextEmbedding query_model) deploy_engine deploy_db ''deploy'' 2)
       = Inr [2, 3]"
  by (simp add: search_def embed_text_def get_model_def deploy_nonempty deploy_vector_scores
      deploy_keyword_1 deploy_keyword_2 combine_def VECTOR_WEIGHT_def KEYWORD_WEIGHT_def
      slice_to_def result_ids_def)

text \<open>
  Claim C7, amended. For a fixed store and query and limits \<open>0 \<le> m \<le> n\<close> with
  \<open>3 * n\<close> below \<open>2^63\<close>: if the full-text query matches at most \<open>3 * m\<close> rows (or
  fails, or is skipped because the sanitised query is blank), then the result of
  \<^verbatim>\<open>search(query, m)\<close> is the first \<open>m\<close> records of the result of
  \<^verbatim>\<open>search(query, n)\<close>; so every record of the smaller result is in the larger one.
\<close>

theorem search_prefix_stable:
  assumes "0 \<le> m" and "m \<le> n" and "n * 3 < 2 ^ 63"
      and "keyword_batch_fits engine s query (m * 3)"
      and "search env engine s query n = Inr rn"
    shows "search env engine s query m = Inr (take (nat m) rn) \<and> set (take (nat m) rn) \<subseteq> set rn"
proof
  from assms(1,2) have mn: "min (nat m) (nat n) = nat m" by simp
  from assms(1,2,3) have im: "sqlite_integer (m * 3)" and "sqlite_integer (n * 3)"
    by (simp_all add: sqlite_integer_def)
  moreover from assms(2,4) have "keyword_batch_fits engine s query (n * 3)"
    by (auto intro: keyword_batch_fits_mono)
  ultimately have "keyword_scores engine s query n = keyword_scores engine s query m"
    using assms(4) by (simp only: keyword_scores_fits)
  with assms(1,2,5) show "search env engine s query m = Inr (take (nat m) rn)"
    by (auto simp: search_def Let_def slice_to_def mn split: sum.splits if_splits)
  show "set (take (nat m) rn) \<subseteq> set rn"
    by (rule set_take_subset)
qed

theorem search_prefix_stable_witness:
  "(0::int) \<le> 2 \<and> (2::int) \<le> 3 \<and> (3::int) * 3 < 2 ^ 63
   \<and> keyword_batch_fits deploy_engine deploy_db ''deploy'' (2 * 3)
   \<and> result_ids (search (TextEmbedding query_model) deploy_engine deploy_db ''deploy'' 3)
       = Inr [2, 3, 5]
   \<and> result_ids (search (TextEmbedding query_model) deploy_engine deploy_db ''deploy'' 2)
       = Inr [2, 3]"
proof -
  have h1: "(0::int) \<le> 2" and h2: "(2::int) \<le> 3" and h3: "(3::int) * 3 < 2 ^ 63"
    by simp_all
  from search_prefix_stable [OF h1 h2 h3 deploy_fits_6 deploy_search_3] deploy_fits_6
    deploy_search_3
  show ?thesis by (simp add: result_ids_def)
qed

section \<open>Properties of save\<close>

lemma save_installed:
  "save (TextEmbedding m) now s c cat =
     (Inr (next_rowid s), snd (insert_memory s c cat (Some (serialize_vector (m c))) now now))"
  by (simp add: save_def embed_text_def get_model_def insert_memory_def Let_def)

lemma save_not_installed: "save NotInstalled now s c cat = (Inl ImportError, s)"
  by (simp add: save_def embed_text_def get_model_def)

text \<open>
  Claim C4, as stated. The claim expects \<^verbatim>\<open>save("")\<close> and \<^verbatim>\<open>save("   ")\<close> to fail with
  \<open>InvalidContent\<close> and to leave the record count unchanged. On the empty store both
  return the id 1 and leave one record.
\<close>

theorem save_blank_content_counterexample:
  "fst (save (TextEmbedding unit_model) ''2025-01-01T09:00:00'' init_db '''' ''fact'') = Inr 1
   \<and> count (snd (save (TextEmbedding unit_model) ''2025-01-01T09:00:00'' init_db '''' ''fact'')) = 1
   \<and> fst (save (TextEmbedding unit_model) ''2025-01-01T09:00:00'' init_db ''   '' ''fact'') = Inr 1
   \<and> count (snd (save (TextEmbedding unit_model) ''2025-01-01T09:00:00'' init_db ''   '' ''fact'')) = 1
   \<and> count init_db = 0"
  by (simp add: save_installed insert_memory_def trigger_memories_ai_def Let_def count_def
      init_db_def next_rowid_def)

text \<open>
  Claim C4, amended. \<^verbatim>\<open>save\<close> does not look at the content. For every content string,
  empty and blank ones included, when the embedding model is available it persists one
  record with that content (the count grows by one) and returns the new id; when the
  model is unavailable it fails with \<^verbatim>\<open>ImportError\<close> and the store is unchanged.
\<close>

theorem save_accepts_any_content:
  "fst (save (TextEmbedding m) now s c cat) = Inr (next_rowid s)
   \<and> count (snd (save (TextEmbedding m) now s c cat)) = count s + 1
   \<and> content (last (memories (snd (save (TextEmbedding m) now s c cat)))) = c
   \<and> save NotInstalled now s c cat = (Inl ImportError, s)"
  by (simp add: save_installed save_not_installed insert_memory_def trigger_memories_ai_def
      Let_def count_def)

section \<open>The keyword index mirrors the record table\<close>

lemma mirrored_init: "mirrored init_db"
  by (simp add: mirrored_def init_db_def)

text \<open>What \<^verbatim>\<open>save\<close> writes: one row at the end of each table, under the new id.\<close>

lemma save_tables:
  "memories (snd (save (TextEmbedding m) now s c cat)) =
     memories s @ [\<lparr>row_id = next_rowid s, content = c, category = cat,
                    embedding = Some (serialize_vector (m c)), created_at = now,
                    updated_at = now\<rparr>]"
  "memories_fts (snd (save (TextEmbedding m) now s c cat)) =
     memories_fts s @ [\<lparr>fts_rowid = next_rowid s, fts_content = c, fts_category = cat\<rparr>]"
  by (simp_all add: save_installed insert_memory_def trigger_memories_ai_def Let_def)

lemma mirrored_save: "mirrored s \<Longrightarrow> mirrored (snd (save env now s c cat))"
  by (cases env) (simp_all add: mirrored_def save_tables save_not_installed)

text \<open>The new id is above every id in the table.\<close>

lemma fold_max_ge: "(a::int) \<le> fold max xs a \<and> (\<forall>x \<in> set xs. x \<le> fold max xs a)"
proof (induction xs arbitrary: a)
  case Nil
  then show ?case by simp
next
  case (Cons y ys)
  from Cons.IH [of "max y a"] show ?case by auto
qed

lemma next_rowid_fresh: "next_rowid s \<notin> row_id ` set (memories s)"
proof
  assume "next_rowid s \<in> row_id ` set (memories s)"
  then have "next_rowid s \<in> set (map row_id (memories s))" by simp
  with fold_max_ge [of "seq s" "map row_id (memories s)"]
  have "next_rowid s \<le> fold max (map row_id (memories s)) (seq s)" by blast
  then show False by (simp add: next_rowid_def)
qed

text \<open>The delete trigger touches the index only; run for rows of one id it is one filter.\<close>

lemma memories_fold_trigger: "memories (fold trigger_memories_ad deleted s) = memories s"
  by (induction deleted arbitrary: s) (simp_all add: trigger_memories_ad_def)

lemma fts_fold_trigger:
  "list_all (\<lambda>r. row_id r = i) deleted \<Longrightarrow>
   memories_fts (fold trigger_memories_ad deleted s) =
     (if deleted = [] then memories_fts s
      else filter (\<lambda>f. fts_rowid f \<noteq> i) (memories_fts s))"
  by (induction deleted arbitrary: s) (auto simp: trigger_memories_ad_def)

lemma delete_memories:
  "memories (snd (delete s i)) = filter (\<lambda>r. row_id r \<noteq> i) (memories s)"
  by (simp add: delete_def delete_memory_def Let_def memories_fold_trigger)

text \<open>
  When no row of the table has the id, the trigger does not run; the index, which
  mirrors the table, has no such row either, so the filter leaves it as it is.
\<close>

lemma delete_memories_fts:
  assumes m: "mirrored s"
  shows "memories_fts (snd (delete s i)) = filter (\<lambda>f. fts_rowid f \<noteq> i) (memories_fts s)"
proof -
  let ?deleted = "filter (\<lambda>r. row_id r = i) (memories s)"
  let ?s1 = "s\<lparr>memories := filter (\<lambda>r. row_id r \<noteq> i) (memories s)\<rparr>"
  have all: "list_all (\<lambda>r. row_id r = i) ?deleted"
    by (simp add: list_all_iff)
  have fts: "memories_fts (snd (delete s i)) =
      (if ?deleted = [] then memories_fts s
       else filter (\<lambda>f. fts_rowid f \<noteq> i) (memories_fts s))"
    using fts_fold_trigger [OF all, of ?s1] by (simp add: delete_def delete_memory_def Let_def)
  show ?thesis
  proof (cases "?deleted = []")
    case True
    then have "i \<notin> set (map row_id (memories s))"
      by (auto simp: filter_empty_conv)
    with m have "i \<notin> set (map fts_rowid (memories_fts s))"
      by (simp add: mirrored_def)
    then have "filter (\<lambda>f. fts_rowid f \<noteq> i) (memories_fts s) = memories_fts s"
      by (auto simp: filter_id_conv)
    with True fts show ?thesis by simp
  next
    case False
    with fts show ?thesis by simp
  qed
qed

lemma mirrored_delete:
  assumes m: "mirrored s"
  shows "mirrored (snd (delete s i))"
proof -
  have "map fts_rowid (filter (\<lambda>f. fts_rowid f \<noteq> i) (memories_fts s)) =
        filter (\<lambda>k. k \<noteq> i) (map fts_rowid (memories_fts s))"
    by (simp add: filter_map comp_def)
  also have "\<dots> = filter (\<lambda>k. k \<noteq> i) (map row_id (memories s))"
    using m by (simp add: mirrored_def)
  also have "\<dots> = map row_id (filter (\<lambda>r. row_id r \<noteq> i) (memories s))"
    by (simp add: filter_map comp_def)
  finally show ?thesis
    by (simp add: mirrored_def delete_memories delete_memories_fts [OF m])
qed

lemma mirrored_apply: "mirrored s \<Longrightarrow> mirrored (apply_operation env s x)"
  by (cases x) (simp_all add: mirrored_save mirrored_delete)

lemma mirrored_run: "mirrored s \<Longrightarrow> mirrored (run env s ops)"
proof (induction ops arbitrary: s)
  case Nil
  then show ?case by simp
next
  case (Cons x xs)
  from Cons.prems have "mirrored (apply_operation env s x)"
    by (rule mirrored_apply)
  then have "mirrored (run env (apply_operation env s x) xs)"
    by (rule Cons.IH)
  then show ?case by simp
qed

lemma example_history:
  "run (TextEmbedding unit_model) init_db
     [Save ''2025-01-01T09:00:00'' ''User prefers dark mode'' ''preference'',
      Save ''2025-01-02T09:00:00'' ''deploy on Fridays'' ''lesson'',
      Delete 1] =
   \<lparr>memories =
      [\<lparr>row_id = 2, content = ''deploy on Fridays'', category = ''lesson'',
        embedding = Some (serialize_vector [f_1]), created_at = ''2025-01-02T09:00:00'',
        updated_at = ''2025-01-02T09:00:00''\<rparr>],
    memories_fts =
      [\<lparr>fts_rowid = 2, fts_content = ''deploy on Fridays'', fts_category = ''lesson''\<rparr>],
    seq = 2\<rparr>"
  by (simp add: save_installed insert_memory_def trigger_memories_ai_def trigger_memories_ad_def
      delete_def delete_memory_def Let_def init_db_def next_rowid_def unit_model_def)

text \<open>
  Claim C9. Let \<open>s\<close> be the database after any sequence of \<^verbatim>\<open>save\<close> and \<^verbatim>\<open>delete\<close> calls
  on the database that \<^verbatim>\<open>_init_db\<close> creates. The set of row ids in the keyword index
  equals the set of row ids in the record table. A further \<^verbatim>\<open>save\<close> adds the record to
  both, under an id that the table does not hold (and changes nothing when the embedding
  call fails); a further \<^verbatim>\<open>delete\<close> removes the rows of the given id from both, and no
  other row.
\<close>

theorem index_mirrors_table:
  assumes "s = run env init_db ops"
  shows "fts_rowid ` set (memories_fts s) = row_id ` set (memories s)
     \<and> next_rowid s \<notin> row_id ` set (memories s)
     \<and> memories (snd (save (TextEmbedding m) now s c cat)) =
         memories s @ [\<lparr>row_id = next_rowid s, content = c, category = cat,
                        embedding = Some (serialize_vector (m c)), created_at = now,
                        updated_at = now\<rparr>]
     \<and> memories_fts (snd (save (TextEmbedding m) now s c cat)) =
         memories_fts s @ [\<lparr>fts_rowid = next_rowid s, fts_content = c, fts_category = cat\<rparr>]
     \<and> snd (save NotInstalled now s c cat) = s
     \<and> memories (snd (delete s i)) = filter (\<lambda>r. row_id r \<noteq> i) (memories s)
     \<and> memories_fts (snd (delete s i)) = filter (\<lambda>f. fts_rowid f \<noteq> i) (memories_fts s)"
proof -
  have m: "mirrored s"
    unfolding assms using mirrored_init by (rule mirrored_run)
  then have "set (map fts_rowid (memories_fts s)) = set (map row_id (memories s))"
    by (simp only: mirrored_def)
  then have ids: "fts_rowid ` set (memories_fts s) = row_id ` set (memories s)"
    by simp
  show ?thesis
    by (simp only: ids next_rowid_fresh save_tables save_not_installed snd_conv delete_memories
        delete_memories_fts [OF m] simp_thms)
qed

theorem index_mirrors_table_witness:
  "map row_id (memories (run (TextEmbedding unit_model) init_db
       [Save ''2025-01-01T09:00:00'' ''User prefers dark mode'' ''preference'',
        Save ''2025-01-02T09:00:00'' ''deploy on Fridays'' ''lesson'',
        Delete 1])) = [2]
   \<and> map fts_rowid (memories_fts (run (TextEmbedding unit_model) init_db
       [Save ''2025-01-01T09:00:00'' ''User prefers dark mode'' ''preference'',
        Save ''2025-01-02T09:00:00'' ''deploy on Fridays'' ''lesson'',
        Delete 1])) = [2]
   \<and> memories (snd (delete (run (TextEmbedding unit_model) init_db
       [Save ''2025-01-01T09:00:00'' ''User prefers dark mode'' ''preference'',
        Save ''2025-01-02T09:00:00'' ''deploy on Fridays'' ''lesson'',
        Delete 1]) 2)) = []
   \<and> memories_fts (snd (delete (run (TextEmbedding unit_model) init_db
       [Save ''2025-01-01T09:00:00'' ''User prefers dark mode'' ''preference'',
        Save ''2025-01-02T09:00:00'' ''deploy on Fridays'' ''lesson'',
        Delete 1]) 2)) = []"
  unfolding example_history
  using index_mirrors_table [OF example_history [symmetric], where i = 2]
  by simp

section \<open>Properties of get_all\<close>

text \<open>
  Claim C10. Every dictionary that \<^verbatim>\<open>get_all\<close> returns has no entry under the string key
  \<^verbatim>\<open>"id"\<close>; the identifier of its record is stored under the builtin function \<^verbatim>\<open>id\<close>.
\<close>

theorem get_all_id_key:
  assumes "d \<in> set (get_all s limit)"
  shows "map_of d (Str ''id'') = None
         \<and> (\<exists>r \<in> set (memories s). map_of d BuiltinId = Some (IntVal (row_id r)))"
proof -
  from assms obtain r where
    r: "r \<in> set (sql_limit limit (order_by_created_at_desc (memories s)))" and
    d: "d = [(BuiltinId, IntVal (row_id r)), (Str ''content'', StrVal (content r)),
             (Str ''category'', StrVal (category r)), (Str ''created_at'', StrVal (created_at r))]"
    by (auto simp: get_all_def)
  from r have "r \<in> set (memories s)"
    by (auto simp: sql_limit_def order_by_created_at_desc_def split: if_splits dest: in_set_takeD)
  with d show ?thesis by auto
qed

theorem get_all_id_key_witness:
  "[(BuiltinId, IntVal 1), (Str ''content'', StrVal ''User prefers dark mode''),
    (Str ''category'', StrVal ''preference''), (Str ''created_at'', StrVal ''2025-01-01T09:00:00'')]
     \<in> set (get_all (dark_db None) 100)
   \<and> map_of [(BuiltinId, IntVal 1), (Str ''content'', StrVal ''User prefers dark mode''),
       (Str ''category'', StrVal ''preference''),
       (Str ''created_at'', StrVal ''2025-01-01T09:00:00'')] (Str ''id'') = None
   \<and> map_of [(BuiltinId, IntVal 1), (Str ''content'', StrVal ''User prefers dark mode''),
       (Str ''category'', StrVal ''preference''),
       (Str ''created_at'', StrVal ''2025-01-01T09:00:00'')] BuiltinId = Some (IntVal 1)"
  using get_all_id_key
    [of "[(BuiltinId, IntVal 1), (Str ''content'', StrVal ''User prefers dark mode''),
          (Str ''category'', StrVal ''preference''),
          (Str ''created_at'', StrVal ''2025-01-01T09:00:00'')]" "dark_db None" 100]
  by (simp add: get_all_def dark_db_def dark_row_def sql_limit_def order_by_created_at_desc_def)

end
